theory Spec2Isabelle
  imports Main "HOL-Library.Char_ord" "HOL-Library.List_Lexorder"
begin

section \<open>Training setup of kraken's recognition models (kraken/lib/train.py)\<close>

text \<open>
  The development embeds three functions of \<^verbatim>\<open>kraken/lib/train.py\<close>:
  \<^verbatim>\<open>_star_fun\<close>, \<^verbatim>\<open>RecognitionModel._build_dataset\<close> and
  \<^verbatim>\<open>RecognitionModel.setup\<close>. Python exceptions are values of the type
  \<open>exn\<close>; a function that may raise returns \<open>exn + 'a\<close>, and a method that mutates
  \<^verbatim>\<open>self\<close> returns the object as it is when the method returns or raises.
  The codec, the datasets and the network live in other modules of the package
  (\<^verbatim>\<open>kraken.lib.codec\<close>, \<^verbatim>\<open>kraken.lib.dataset\<close>, \<^verbatim>\<open>kraken.lib.vgsl\<close>);
  their operations are modelled from the specification and marked as such.
\<close>

subsection \<open>Exceptions\<close>

type_synonym cluster = string
type_synonym label = nat

datatype message = Message string | Alphabets_mismatch "cluster set"

datatype exn =
    FileNotFoundError string string
  | KrakenInputException message
  | KrakenEncodeException cluster
  | ValueError string
  | NameError string
  | UnboundLocalError string
  | AttributeError string

text \<open>
  \<open>FileNotFoundError strerror filename\<close> carries the two attributes that
  \<^verbatim>\<open>_star_fun\<close> reads. The message of a \<^verbatim>\<open>KrakenInputException\<close> is a plain
  string, or the message of line 449, which names a set of clusters: the text
  \<^verbatim>\<open>Training data and model codec alphabets mismatch:\<close> followed by the set. Messages
  are also what the logger receives.
\<close>

subsection \<open>Codec\<close>

text \<open>
  Modelled from the spec: the class \<^verbatim>\<open>PytorchCodec\<close> of \<^verbatim>\<open>kraken.lib.codec\<close> is
  not among the sources. Section 3 of the specification gives it a mapping \<open>c2l\<close> from
  grapheme clusters to label sequences and a \<open>strict\<close> flag. The mapping is kept as an
  association list in insertion order, as a Python dict is.
\<close>

record codec =
  c2l :: "(cluster \<times> label list) list"
  strict :: bool

text \<open>Modelled from the spec: the keys of \<open>c2l\<close>, the clusters the codec knows.\<close>

definition keys :: "codec \<Rightarrow> cluster list" where
  "keys c = map fst (c2l c)"

text \<open>Modelled from the spec: every label that occurs in a value of \<open>c2l\<close>.\<close>

definition labels :: "codec \<Rightarrow> label list" where
  "labels c = concat (map snd (c2l c))"

text \<open>
  Modelled from the spec: \<open>max_label\<close> is the highest label assigned. The specification
  gives no value for a codec without labels; the fold starts from 0 there.
\<close>

definition max_label :: "codec \<Rightarrow> label" where
  "max_label c = fold max (labels c) 0"

text \<open>
  Modelled from the spec: \<^verbatim>\<open>len(codec)\<close> (used at line 463) counts the entries. A Python
  object with \<^verbatim>\<open>__len__\<close> is false in a condition exactly when its length is 0,
  which is what \<^verbatim>\<open>self.codec and ...\<close> at line 440 tests.
\<close>

definition len :: "codec \<Rightarrow> nat" where
  "len c = length (c2l c)"

text \<open>
  Modelled from the spec: \<open>encode\<close> (section 4.1) turns a text into the concatenation of
  the label sequences of its grapheme clusters. A text is given as the sequence of its
  clusters, the unit in which both the alphabet and the keys of \<open>c2l\<close> are expressed. A
  cluster that the codec does not know raises \<^verbatim>\<open>KrakenEncodeException\<close> when the codec
  is strict; otherwise it is left out of the encoding.
\<close>

fun encode :: "codec \<Rightarrow> cluster list \<Rightarrow> exn + label list" where
  "encode c [] = Inr []"
| "encode c (g # gs) =
     (case map_of (c2l c) g of
        None \<Rightarrow> if strict c then Inl (KrakenEncodeException g) else encode c gs
      | Some ls \<Rightarrow> (case encode c gs of Inl e \<Rightarrow> Inl e | Inr r \<Rightarrow> Inr (ls @ r)))"

text \<open>
  Modelled from the spec: a codec built from an alphabet (section 3, lifecycle) assigns one
  label per cluster in a fixed order, here the lexicographic one, from 0 on. The strict
  flag is not set on it.
\<close>

definition codec_of_alphabet :: "cluster list \<Rightarrow> codec" where
  "codec_of_alphabet alphabet =
     (let ks = sort (remdups alphabet)
      in \<lparr>c2l = zip ks (map (\<lambda>i. [i]) [0 ..< length ks]), strict = False\<rparr>)"

text \<open>
  Modelled from the spec: \<open>add_labels\<close> (section 4.1) returns a codec with one more entry
  for each cluster of the set that the receiver does not know, each with a fresh label, from
  \<open>max_label + 1\<close> on, in lexicographic order. The receiver's entries and its strict flag
  are kept.
\<close>

definition add_labels :: "codec \<Rightarrow> cluster set \<Rightarrow> codec" where
  "add_labels c new =
     (let ks = sorted_list_of_set (new - set (keys c));
          first = max_label c + 1
      in c\<lparr>c2l := c2l c @ zip ks (map (\<lambda>i. [i]) [first ..< first + length ks])\<rparr>)"

text \<open>
  Modelled from the spec: \<open>merge\<close> (section 4.1, with the recommended assignment). The
  clusters of the receiver that the other codec knows keep their labels, renumbered to
  close the gaps that the deleted labels leave; the clusters known to the other codec only
  are appended with one fresh label each. The second component lists the labels of the
  receiver's clusters that the other codec does not know. The specification states the
  density of the result for codecs in which no label is shared between clusters
  (section 8); where a cluster that is dropped shares a label with one that is kept, the
  label is listed as deleted all the same, as the wording of section 4.1 has it.
\<close>

definition merge :: "codec \<Rightarrow> codec \<Rightarrow> codec \<times> label list" where
  "merge c other =
     (let kept = filter (\<lambda>(k, v). k \<in> set (keys other)) (c2l c);
          deleted = concat (map snd (filter (\<lambda>(k, v). k \<notin> set (keys other)) (c2l c)));
          renumber = (\<lambda>l. l - length (filter (\<lambda>d. d < l) (remdups deleted)));
          kept' = map (\<lambda>(k, v). (k, map renumber v)) kept;
          first = (if concat (map snd kept') = [] then 0
                   else fold max (concat (map snd kept')) 0 + 1);
          added = filter (\<lambda>k. k \<notin> set (keys c)) (keys other)
      in (c\<lparr>c2l := kept' @ zip added (map (\<lambda>i. [i]) [first ..< first + length added])\<rparr>,
          deleted))"

subsection \<open>Datasets\<close>

text \<open>
  Modelled from the spec: the dataset classes of \<^verbatim>\<open>kraken.lib.dataset\<close> are not among
  the sources. A dataset holds the samples added to it, the codec it was last encoded with
  and the encoded lines; \<open>im_mode\<close> and \<open>seg_type\<close> are the two attributes that
  \<^verbatim>\<open>setup\<close> reads besides.
\<close>

record sample =
  s_image :: string
  s_text :: "cluster list"

record dataset =
  samples :: "sample list"
  ds_codec :: "codec option"
  training_set :: "(string \<times> label list) list"
  im_mode :: string
  ds_seg_type :: string

text \<open>
  Modelled from the spec: the alphabet of a dataset (section 3) is the set of distinct
  grapheme clusters in its ground truth, computed from the samples.
\<close>

definition alphabet :: "dataset \<Rightarrow> cluster list" where
  "alphabet ds = remdups (concat (map s_text (samples ds)))"

text \<open>Modelled from the spec: encoding every sample of a dataset with one codec.\<close>

fun encode_samples :: "codec \<Rightarrow> sample list \<Rightarrow> exn + (string \<times> label list) list" where
  "encode_samples c [] = Inr []"
| "encode_samples c (s # ss) =
     (case encode c (s_text s) of
        Inl e \<Rightarrow> Inl e
      | Inr ls \<Rightarrow> (case encode_samples c ss of
                    Inl e \<Rightarrow> Inl e
                  | Inr r \<Rightarrow> Inr ((s_image s, ls) # r)))"

text \<open>
  Modelled from the spec: \<^verbatim>\<open>dataset.encode(codec)\<close> encodes the ground truth against the
  codec given, or against a codec built from the dataset's own alphabet when none is given
  (the call \<^verbatim>\<open>encode(None)\<close> at line 459, after which line 460 reads that codec). A
  failure of a strict codec is raised to the caller; the dataset is then as before.
\<close>

definition ds_encode :: "codec option \<Rightarrow> dataset \<Rightarrow> exn + dataset" where
  "ds_encode co ds =
     (let c = (case co of None \<Rightarrow> codec_of_alphabet (alphabet ds) | Some c \<Rightarrow> c)
      in case encode_samples c (samples ds) of
           Inl e \<Rightarrow> Inl e
         | Inr ls \<Rightarrow> Inr (ds\<lparr>ds_codec := Some c, training_set := ls\<rparr>))"

text \<open>
  Modelled from the spec: \<^verbatim>\<open>dataset.add(**im)\<close>. The sequential path of
  \<^verbatim>\<open>_build_dataset\<close> passes the raw item (\<open>Inl\<close>), which \<open>add\<close> parses itself, so that
  it raises what the parser raises; the parallel path passes the sample that a worker has
  parsed already (\<open>Inr\<close>). The parser belongs to the dataset class and is a parameter.
\<close>

definition add :: "('i \<Rightarrow> exn + sample) \<Rightarrow> 'i + sample \<Rightarrow> dataset \<Rightarrow> exn + dataset" where
  "add parse im ds =
     (case im of
        Inl item \<Rightarrow> (case parse item of
                      Inl e \<Rightarrow> Inl e
                    | Inr s \<Rightarrow> Inr (ds\<lparr>samples := samples ds @ [s]\<rparr>))
      | Inr s \<Rightarrow> Inr (ds\<lparr>samples := samples ds @ [s]\<rparr>))"

subsection \<open>\<^verbatim>\<open>_star_fun\<close> and \<^verbatim>\<open>_build_dataset\<close>\<close>

text \<open>
  \<^verbatim>\<open>_star_fun\<close> (lines 55 to 62) calls the function and turns the two exceptions it
  catches into a warning and the result \<^verbatim>\<open>None\<close>; any other exception leaves it. The
  second component is what it has logged.
\<close>

definition star_fun :: "('i \<Rightarrow> exn + 'a) \<Rightarrow> 'i \<Rightarrow> (exn + 'a option) \<times> message list" where
  "star_fun fun kwargs =
     (case fun kwargs of
        Inr r \<Rightarrow> (Inr (Some r), [])
      | Inl (FileNotFoundError strerror filename) \<Rightarrow>
          (Inr None, [Message (strerror @ '': '' @ filename @ ''. Skipping.'')])
      | Inl (KrakenInputException m) \<Rightarrow> (Inr None, [m])
      | Inl e \<Rightarrow> (Inl e, []))"

text \<open>
  The outcome of \<^verbatim>\<open>_build_dataset\<close>: the dataset returned or the exception raised, the
  warnings logged, and the number of processes of the worker pool when one was created.
\<close>

record build =
  built :: "exn + dataset"
  warnings :: "message list"
  pool :: "int option"

text \<open>The loop of lines 366 to 370: each item is added in turn, in the order given.\<close>

fun add_each :: "('i \<Rightarrow> exn + sample) \<Rightarrow> 'i list \<Rightarrow> dataset \<Rightarrow> (exn + dataset) \<times> message list" where
  "add_each parse [] ds = (Inr ds, [])"
| "add_each parse (im # ims) ds =
     (case add parse (Inl im) ds of
        Inr ds' \<Rightarrow> add_each parse ims ds'
      | Inl (KrakenInputException m) \<Rightarrow>
          (case add_each parse ims ds of (r, w) \<Rightarrow> (r, m # w))
      | Inl e \<Rightarrow> (Inl e, []))"

text \<open>
  The loop of lines 361 to 364 over the results of the pool, in the order in which they
  complete: a result that is not \<^verbatim>\<open>None\<close> is added to the dataset.
\<close>

fun add_results :: "('i \<Rightarrow> exn + sample) \<Rightarrow> 'i list \<Rightarrow> dataset \<Rightarrow> (exn + dataset) \<times> message list" where
  "add_results parse [] ds = (Inr ds, [])"
| "add_results parse (kwargs # rest) ds =
     (case star_fun parse kwargs of
        (Inl e, w) \<Rightarrow> (Inl e, w)
      | (Inr None, w) \<Rightarrow> (case add_results parse rest ds of (r, w') \<Rightarrow> (r, w @ w'))
      | (Inr (Some im), w) \<Rightarrow>
          (case add parse (Inr im) ds of
             Inl e \<Rightarrow> (Inl e, w)
           | Inr ds' \<Rightarrow> (case add_results parse rest ds' of (r, w') \<Rightarrow> (r, w @ w'))))"

text \<open>
  \<^verbatim>\<open>_build_dataset\<close> (lines 350 to 371). \<open>dataset\<close> is the instance that the
  constructor of the dataset class returns, \<open>parse\<close> the parser of that class and
  \<open>completion\<close> the order in which \<^verbatim>\<open>imap_unordered\<close> yields the results for the items
  submitted, which the pool decides.
\<close>

definition build_dataset ::
  "int \<Rightarrow> string option \<Rightarrow> ('i list \<Rightarrow> 'i list) \<Rightarrow> ('i \<Rightarrow> exn + sample) \<Rightarrow> dataset \<Rightarrow> 'i list \<Rightarrow> build" where
  "build_dataset num_workers format_type completion parse dataset training_data =
     (if (num_workers \<noteq> 0 \<and> num_workers > 1) \<and> format_type \<noteq> Some ''binary'' then
        (case add_results parse (completion training_data) dataset of
           (r, w) \<Rightarrow> \<lparr>built = r, warnings = w, pool = Some num_workers\<rparr>)
      else
        (case add_each parse training_data dataset of
           (r, w) \<Rightarrow> \<lparr>built = r, warnings = w, pool = None\<rparr>))"

subsection \<open>The network\<close>

text \<open>
  Modelled from the spec: the class \<^verbatim>\<open>TorchVGSLModel\<close> of \<^verbatim>\<open>kraken.lib.vgsl\<close> is
  not among the sources. Of a network the model keeps its codec, its specification string,
  the rows of its output layer and the attributes that \<^verbatim>\<open>setup\<close> reads or writes
  (\<open>seg_type\<close> is the entry of that name in \<^verbatim>\<open>user_metadata\<close>, \<open>None\<close> when the
  dictionary has no such key). A row is either one
  that the loaded model has learned, named by a number, or a freshly initialised one.
\<close>

datatype row = Learned nat | Fresh

record network =
  nn_codec :: "codec option"
  nn_spec :: string
  out_layer :: "row list"
  one_channel_mode :: "string option"
  seg_type :: "string option"
  model_type :: string
  hyper_params :: "(string \<times> string) list"

text \<open>Modelled from the spec: \<^verbatim>\<open>add_codec\<close> attaches a codec to the network.\<close>

definition add_codec :: "codec \<Rightarrow> network \<Rightarrow> network" where
  "add_codec c net = net\<lparr>nn_codec := Some c\<rparr>"

text \<open>
  Modelled from the spec: \<^verbatim>\<open>resize_output(new_width, delete_indices)\<close> (section 6)
  returns a layer of \<open>new_width\<close> rows: the rows at the indices to delete are removed,
  the other rows keep their relative order and move up to fill the gaps, and the rows added
  are freshly initialised. A call without indices to delete passes the empty list.
\<close>

definition resize_output :: "nat \<Rightarrow> label list \<Rightarrow> network \<Rightarrow> network" where
  "resize_output output_size del_indices net =
     (let old = map snd (filter (\<lambda>(i, r). i \<notin> set del_indices)
                                (zip [0 ..< length (out_layer net)] (out_layer net)))
      in net\<lparr>out_layer := take output_size old @ replicate (output_size - length old) Fresh\<rparr>)"

text \<open>
  Modelled from the spec: a newly constructed model (section 4.4, state 3) has as many fresh
  output rows as its specification string asks for; that number is passed beside the
  string, and nothing else is set on the new network.
\<close>

definition TorchVGSLModel :: "string \<Rightarrow> nat \<Rightarrow> network" where
  "TorchVGSLModel spec outputs =
     \<lparr>nn_codec = None, nn_spec = spec, out_layer = replicate outputs Fresh,
      one_channel_mode = None, seg_type = None, model_type = [], hyper_params = []\<rparr>"

subsection \<open>\<^verbatim>\<open>RecognitionModel.setup\<close>\<close>

text \<open>
  The attributes of the \<^verbatim>\<open>RecognitionModel\<close> that \<^verbatim>\<open>setup\<close> uses. The training and
  the validation set are \<^verbatim>\<open>Subset\<close> objects over a dataset; without evaluation data
  both are views of one and the same dataset object (line 313), so the datasets are kept
  in a store \<open>heap\<close> and a subset names its dataset by its address.
\<close>

record subset =
  dataset :: nat
  indices :: "nat list"

record recognition_model =
  nn :: "network option"
  codec :: "codec option"
  append_pt :: "int option"
  model :: "string option"
  resize :: string
  spec :: string
  hparams :: "(string \<times> string) list"
  train_set :: subset
  val_set :: subset
  heap :: "nat \<Rightarrow> dataset"

text \<open>Python's \<^verbatim>\<open>str\<close> of a natural number, as the format string of line 471 prints it.\<close>

function str :: "nat \<Rightarrow> string" where
  "str n = (if n < 10 then [char_of (48 + n)] else str (n div 10) @ [char_of (48 + n mod 10)])"
  by pat_completeness auto
termination
  by (relation "measure id") auto

text \<open>\<^verbatim>\<open>self.<set>.dataset.encode(codec)\<close> on the dataset at an address of the store.\<close>

definition encode_at :: "nat \<Rightarrow> codec option \<Rightarrow> recognition_model \<Rightarrow> exn + recognition_model" where
  "encode_at r co self =
     (case ds_encode co (heap self r) of
        Inl e \<Rightarrow> Inl e
      | Inr d \<Rightarrow> Inr (self\<lparr>heap := (heap self)(r := d)\<rparr>))"

text \<open>
  Lines 430 to 437, the branch \<^verbatim>\<open>if self.append\<close>. Line 433 assigns to the name
  \<^verbatim>\<open>spec\<close>, which makes it a local variable of \<^verbatim>\<open>setup\<close>, and reads \<^verbatim>\<open>spec[1:-1]\<close>
  on its right-hand side before the variable is bound: the statement raises
  \<^verbatim>\<open>UnboundLocalError\<close>, and lines 434 to 437 are never reached.
\<close>

definition setup_append :: "recognition_model \<Rightarrow> (exn + unit) \<times> recognition_model" where
  "setup_append self =
     (case encode_at (dataset (train_set self)) (codec self) self of
        Inl e \<Rightarrow> (Inl e, self)
      | Inr s1 \<Rightarrow> (Inl (UnboundLocalError ''spec''), s1))"

text \<open>
  Line 440: the codec given explicitly is preferred when it is true as a condition and the
  mode is \<^verbatim>\<open>both\<close>; otherwise \<^verbatim>\<open>self.nn.codec\<close> is read. The flag tells which of the two
  objects the result is.
\<close>

definition effective_codec :: "recognition_model \<Rightarrow> exn + bool \<times> codec option" where
  "effective_codec self =
     (if (case codec self of None \<Rightarrow> False | Some c \<Rightarrow> len c \<noteq> 0) \<and> resize self = ''both''
      then Inr (True, codec self)
      else (case nn self of
              None \<Rightarrow> Inl (AttributeError ''codec'')
            | Some net \<Rightarrow> Inr (False, nn_codec net)))"

text \<open>
  Lines 447 to 467, the handler of \<^verbatim>\<open>KrakenEncodeException\<close>. In the branch \<^verbatim>\<open>add\<close>
  line 456 reads the name \<^verbatim>\<open>nn\<close>, which is neither a local variable of \<^verbatim>\<open>setup\<close> nor a
  name of the module: it raises \<^verbatim>\<open>NameError\<close> after the network has been resized.
\<close>

definition reconcile :: "codec \<Rightarrow> recognition_model \<Rightarrow> (exn + unit) \<times> recognition_model" where
  "reconcile codec' self =
     (let r = dataset (train_set self);
          alpha_diff = set (alphabet (heap self r)) - set (keys codec')
      in if resize self = ''fail'' then
           (Inl (KrakenInputException (Alphabets_mismatch alpha_diff)), self)
         else if resize self = ''add'' then
           (let codec2 = add_labels codec' alpha_diff
            in case nn self of
                 None \<Rightarrow> (Inl (AttributeError ''add_codec''), self)
               | Some net \<Rightarrow>
                   (Inl (NameError ''nn''),
                    self\<lparr>nn := Some (resize_output (max_label codec2 + 1) []
                                        (add_codec codec2 net))\<rparr>))
         else if resize self = ''both'' then
           (case encode_at r None self of
              Inl e \<Rightarrow> (Inl e, self)
            | Inr s1 \<Rightarrow>
                (case ds_codec (heap s1 r) of
                   None \<Rightarrow> (Inl (AttributeError ''c2l''), s1)
                 | Some other \<Rightarrow>
                     (case merge codec' other of
                        (ncodec, del_labels) \<Rightarrow>
                          (case nn s1 of
                             None \<Rightarrow> (Inl (AttributeError ''add_codec''), s1)
                           | Some net \<Rightarrow>
                               (let s2 = s1\<lparr>nn := Some (add_codec ncodec net)\<rparr>
                                in case encode_at r (Some ncodec) s2 of
                                     Inl e \<Rightarrow> (Inl e, s2)
                                   | Inr s3 \<Rightarrow>
                                       (Inr (),
                                        s3\<lparr>nn := Some (resize_output (max_label ncodec + 1)
                                                   del_labels (add_codec ncodec net))\<rparr>))))))
         else (Inl (ValueError (''invalid resize parameter value '' @ resize self)), self))"

text \<open>
  Lines 438 to 467, the branch \<^verbatim>\<open>elif self.model\<close>. Line 442 sets the strict flag on the
  object chosen at line 440: on the codec of the network, or on the codec given explicitly.
\<close>

definition setup_load :: "recognition_model \<Rightarrow> (exn + unit) \<times> recognition_model" where
  "setup_load self =
     (case effective_codec self of
        Inl e \<Rightarrow> (Inl e, self)
      | Inr (given, None) \<Rightarrow> (Inl (AttributeError ''strict''), self)
      | Inr (given, Some c) \<Rightarrow>
          (let codec' = c\<lparr>strict := True\<rparr>;
               s1 = (if given then self\<lparr>codec := Some codec'\<rparr>
                     else self\<lparr>nn := map_option (\<lambda>net. net\<lparr>nn_codec := Some codec'\<rparr>) (nn self)\<rparr>)
           in case encode_at (dataset (train_set s1)) (Some codec') s1 of
                Inr s2 \<Rightarrow> (Inr (), s2)
              | Inl (KrakenEncodeException g) \<Rightarrow> reconcile codec' s1
              | Inl e \<Rightarrow> (Inl e, s1)))"

text \<open>Lines 468 to 475, the branch \<^verbatim>\<open>else\<close>: a new model is created.\<close>

definition setup_new :: "recognition_model \<Rightarrow> (exn + unit) \<times> recognition_model" where
  "setup_new self =
     (let r = dataset (train_set self)
      in case encode_at r (codec self) self of
           Inl e \<Rightarrow> (Inl e, self)
         | Inr s1 \<Rightarrow>
             (case ds_codec (heap s1 r) of
                None \<Rightarrow> (Inl (AttributeError ''max_label''), s1)
              | Some c \<Rightarrow>
                  (let spec' = ''['' @ butlast (tl (spec s1)) @ '' O1c'' @ str (max_label c + 1) @ '']''
                   in (Inr (),
                       s1\<lparr>spec := spec',
                          nn := Some (add_codec c (TorchVGSLModel spec' (max_label c + 1)))\<rparr>))))"

text \<open>
  Lines 477 to 493, which follow the three branches. The warning of line 480 formats
  \<^verbatim>\<open>nn.one_channel_mode\<close> with the unbound name \<^verbatim>\<open>nn\<close> and raises \<^verbatim>\<open>NameError\<close> when
  its condition holds; the warning of line 484 only logs. The attributes \<^verbatim>\<open>rec_nn\<close> and
  \<^verbatim>\<open>net\<close> are further handles on the network and are not kept apart from it.
\<close>

definition finish :: "recognition_model \<Rightarrow> (exn + unit) \<times> recognition_model" where
  "finish self =
     (case nn self of
        None \<Rightarrow> (Inl (AttributeError ''codec''), self)
      | Some net \<Rightarrow>
          (case encode_at (dataset (val_set self)) (nn_codec net) self of
             Inl e \<Rightarrow> (Inl e, self)
           | Inr s1 \<Rightarrow>
               (let train = heap s1 (dataset (train_set s1))
                in if (case one_channel_mode net of
                         None \<Rightarrow> False
                       | Some m \<Rightarrow> m \<noteq> [] \<and> im_mode train \<noteq> m)
                   then (Inl (NameError ''nn''), s1)
                   else (Inr (),
                         s1\<lparr>nn := Some (net\<lparr>hyper_params := hparams s1,
                                            model_type := ''recognition'',
                                            seg_type := (case seg_type net of
                                                           None \<Rightarrow> Some (ds_seg_type train)
                                                         | Some t \<Rightarrow> Some t)\<rparr>)\<rparr>))))"

text \<open>
  \<^verbatim>\<open>setup\<close> (lines 427 to 493), named \<open>setup_stage\<close> here since \<open>setup\<close> is a
  keyword of Isabelle. \<^verbatim>\<open>self.append\<close> is an optional integer and
  \<^verbatim>\<open>self.model\<close> an optional path: as conditions they are true when they are set and are
  not 0 and not the empty string.
\<close>

definition setup_stage :: "string option \<Rightarrow> recognition_model \<Rightarrow> (exn + unit) \<times> recognition_model" where
  "setup_stage stage self =
     (if stage = None \<or> stage = Some ''fit'' then
        (case (if (case append_pt self of None \<Rightarrow> False | Some n \<Rightarrow> n \<noteq> 0) then setup_append self
               else if (case model self of None \<Rightarrow> False | Some p \<Rightarrow> p \<noteq> []) then setup_load self
               else setup_new self) of
           (Inl e, s) \<Rightarrow> (Inl e, s)
         | (Inr u, s) \<Rightarrow> finish s)
      else (Inr (), self))"

subsection \<open>Example states\<close>

text \<open>
  Concrete inputs for the scenarios of section 8 of the specification: datasets given by
  their lines, the codecs of scenarios A to C, a loaded network with one learned output row
  per label of its codec, and a \<^verbatim>\<open>RecognitionModel\<close> that has loaded that network, with
  separate datasets for training (address 0) and validation (address 1).
\<close>

definition empty_dataset :: dataset where
  "empty_dataset = \<lparr>samples = [], ds_codec = None, training_set = [], im_mode = ''1'', ds_seg_type = ''bbox''\<rparr>"

definition lines :: "cluster list list \<Rightarrow> dataset" where
  "lines ts = empty_dataset\<lparr>samples := map (\<lambda>t. \<lparr>s_image = ''line.png'', s_text = t\<rparr>) ts\<rparr>"

definition codec_ab :: codec where
  "codec_ab = \<lparr>c2l = [(''a'', [0]), (''b'', [1])], strict = False\<rparr>"

definition codec_abx :: codec where
  "codec_abx = \<lparr>c2l = [(''a'', [0]), (''b'', [1]), (''x'', [2])], strict = False\<rparr>"

definition network_of :: "codec \<Rightarrow> network" where
  "network_of c = \<lparr>nn_codec = Some c, nn_spec = ''[1,48,0,1 Lbx100 O1c3]'',
     out_layer = map Learned [0 ..< max_label c + 1],
     one_channel_mode = None, seg_type = None, model_type = ''recognition'', hyper_params = []\<rparr>"

definition loaded :: "codec \<Rightarrow> string \<Rightarrow> cluster list list \<Rightarrow> cluster list list \<Rightarrow> recognition_model" where
  "loaded c policy train val =
     \<lparr>nn = Some (network_of c), codec = None, append_pt = None, model = Some ''model.mlmodel'',
      resize = policy, spec = [], hparams = [], train_set = \<lparr>dataset = 0, indices = [0]\<rparr>,
      val_set = \<lparr>dataset = 1, indices = [0]\<rparr>,
      heap = (\<lambda>_. empty_dataset)(0 := lines train, 1 := lines val)\<rparr>"

text \<open>
  A parser for ground-truth items named by their image: the transcription of
  \<^verbatim>\<open>missing.png\<close> does not exist, the one of \<^verbatim>\<open>empty.png\<close> is empty, and every
  other line reads \<open>ab\<close>.
\<close>

definition parse_line :: "string \<Rightarrow> exn + sample" where
  "parse_line im =
     (if im = ''missing.png'' then Inl (FileNotFoundError ''No such file or directory'' ''missing.gt.txt'')
      else if im = ''empty.png'' then Inl (KrakenInputException (Message ''Text line is empty (empty.gt.txt)''))
      else Inr \<lparr>s_image = im, s_text = [''a'', ''b'']\<rparr>)"

section \<open>Properties\<close>

subsection \<open>Encoding a dataset\<close>

text \<open>
  A strict codec encodes a dataset exactly when it knows every cluster of the dataset's
  alphabet, and fails with \<^verbatim>\<open>KrakenEncodeException\<close> otherwise; a codec that is not
  strict always encodes.
\<close>

lemma map_of_None_keys: "map_of (c2l c) g = None \<longleftrightarrow> g \<notin> set (keys c)"
  by (simp add: keys_def map_of_eq_None_iff)

lemma encode_Inl:
  "encode c t = Inl e \<Longrightarrow> strict c \<and> (\<exists>g. e = KrakenEncodeException g \<and> g \<in> set t \<and> g \<notin> set (keys c))"
proof (induction t)
  case Nil
  then show ?case by simp
next
  case (Cons g gs)
  show ?case
  proof (cases "map_of (c2l c) g")
    case None
    then have "g \<notin> set (keys c)" by (simp add: map_of_None_keys)
    with None Cons show ?thesis by (auto split: if_splits)
  next
    case (Some ls)
    with Cons show ?thesis by (auto split: sum.splits)
  qed
qed

lemma encode_known: "set t \<subseteq> set (keys c) \<Longrightarrow> \<exists>ls. encode c t = Inr ls"
proof (induction t)
  case Nil
  then show ?case by simp
next
  case (Cons g gs)
  then obtain ls where "encode c gs = Inr ls" by auto
  moreover from Cons.prems obtain v where "map_of (c2l c) g = Some v"
    using map_of_None_keys [of c g] by (cases "map_of (c2l c) g") auto
  ultimately show ?case by simp
qed

lemma encode_unknown:
  "strict c \<Longrightarrow> \<not> set t \<subseteq> set (keys c) \<Longrightarrow> \<exists>g. encode c t = Inl (KrakenEncodeException g)"
proof (induction t)
  case Nil
  then show ?case by simp
next
  case (Cons g gs)
  show ?case
  proof (cases "map_of (c2l c) g")
    case None
    with Cons.prems show ?thesis by simp
  next
    case (Some ls)
    then have "g \<in> set (keys c)" using map_of_None_keys [of c g] by auto
    with Cons.prems have "\<not> set gs \<subseteq> set (keys c)" by auto
    with Cons obtain g' where "encode c gs = Inl (KrakenEncodeException g')" by auto
    with Some show ?thesis by simp
  qed
qed

lemma encode_samples_known:
  "set (concat (map s_text ss)) \<subseteq> set (keys c) \<Longrightarrow> \<exists>r. encode_samples c ss = Inr r"
proof (induction ss)
  case Nil
  then show ?case by simp
next
  case (Cons s ss)
  then obtain r where "encode_samples c ss = Inr r" by auto
  moreover from Cons.prems obtain ls where "encode c (s_text s) = Inr ls"
    using encode_known [of "s_text s" c] by auto
  ultimately show ?case by simp
qed

lemma encode_samples_unknown:
  "strict c \<Longrightarrow> \<not> set (concat (map s_text ss)) \<subseteq> set (keys c) \<Longrightarrow>
   \<exists>g. encode_samples c ss = Inl (KrakenEncodeException g)"
proof (induction ss)
  case Nil
  then show ?case by simp
next
  case (Cons s ss)
  show ?case
  proof (cases "set (s_text s) \<subseteq> set (keys c)")
    case True
    then obtain ls where ls: "encode c (s_text s) = Inr ls" using encode_known by blast
    from True Cons.prems have "\<not> set (concat (map s_text ss)) \<subseteq> set (keys c)" by auto
    with Cons obtain g where "encode_samples c ss = Inl (KrakenEncodeException g)" by auto
    with ls show ?thesis by simp
  next
    case False
    with Cons.prems obtain g where "encode c (s_text s) = Inl (KrakenEncodeException g)"
      using encode_unknown by blast
    then show ?thesis by simp
  qed
qed

lemma encode_samples_lax: "\<not> strict c \<Longrightarrow> \<exists>r. encode_samples c ss = Inr r"
proof (induction ss)
  case Nil
  then show ?case by simp
next
  case (Cons s ss)
  then obtain r where "encode_samples c ss = Inr r" by auto
  moreover from Cons.prems obtain ls where "encode c (s_text s) = Inr ls"
    using encode_Inl [of c "s_text s"] by (cases "encode c (s_text s)") auto
  ultimately show ?case by simp
qed

lemma ds_encode_known:
  "set (alphabet ds) \<subseteq> set (keys c) \<Longrightarrow>
   \<exists>ls. ds_encode (Some c) ds = Inr (ds\<lparr>ds_codec := Some c, training_set := ls\<rparr>)"
  using encode_samples_known [of "samples ds" c] by (auto simp: ds_encode_def alphabet_def)

lemma ds_encode_unknown:
  "strict c \<Longrightarrow> \<not> set (alphabet ds) \<subseteq> set (keys c) \<Longrightarrow>
   \<exists>g. ds_encode (Some c) ds = Inl (KrakenEncodeException g)"
  using encode_samples_unknown [of c "samples ds"] by (auto simp: ds_encode_def alphabet_def)

lemma ds_encode_None:
  "\<exists>ls. ds_encode None ds = Inr (ds\<lparr>ds_codec := Some (codec_of_alphabet (alphabet ds)), training_set := ls\<rparr>)"
  using encode_samples_lax [of "codec_of_alphabet (alphabet ds)" "samples ds"]
  by (auto simp: ds_encode_def codec_of_alphabet_def Let_def)

lemma keys_strict [simp]: "keys (c\<lparr>strict := b\<rparr>) = keys c"
  by (simp add: keys_def)

subsection \<open>Policy \<^verbatim>\<open>fail\<close>\<close>

text \<open>
  Claim C3, as amended. When a pretrained model is loaded (no append point), the policy is
  \<^verbatim>\<open>fail\<close> and the alphabet of the training set is not a subset of the keys of the
  loaded model's codec, \<^verbatim>\<open>setup\<close> raises the \<^verbatim>\<open>KrakenInputException\<close> of line 449,
  which names the training alphabet minus the keys of the codec. The mapping \<open>c2l\<close> of the
  codec, the output layer of the network and the datasets are left as they were; the one
  change to the object is the strict flag that line 442 has set on the codec of the
  network. Under this policy the effective codec is always the one of the loaded network.
\<close>

theorem fail_policy_alphabet_mismatch:
  assumes stage: "stage = None \<or> stage = Some ''fit''"
    and append: "append_pt self = None \<or> append_pt self = Some 0"
    and model: "model self = Some path" "path \<noteq> []"
    and nn: "nn self = Some net" "nn_codec net = Some c"
    and policy: "resize self = ''fail''"
    and diff: "\<not> set (alphabet (heap self (dataset (train_set self)))) \<subseteq> set (keys c)"
  shows "setup_stage stage self =
     (Inl (KrakenInputException (Alphabets_mismatch
            (set (alphabet (heap self (dataset (train_set self)))) - set (keys c)))),
      self\<lparr>nn := Some (net\<lparr>nn_codec := Some (c\<lparr>strict := True\<rparr>)\<rparr>)\<rparr>)"
proof -
  let ?c = "c\<lparr>strict := True\<rparr>"
  let ?s1 = "self\<lparr>nn := Some (net\<lparr>nn_codec := Some ?c\<rparr>)\<rparr>"
  from diff obtain g where
    g: "ds_encode (Some ?c) (heap self (dataset (train_set self))) = Inl (KrakenEncodeException g)"
    using ds_encode_unknown [of ?c "heap self (dataset (train_set self))"] by auto
  have eff: "effective_codec self = Inr (False, Some c)"
    using nn policy by (simp add: effective_codec_def split: option.splits)
  have "setup_load self = reconcile ?c ?s1"
    using eff nn g by (simp add: setup_load_def encode_at_def Let_def)
  moreover have "reconcile ?c ?s1 =
     (Inl (KrakenInputException (Alphabets_mismatch
            (set (alphabet (heap self (dataset (train_set self)))) - set (keys c)))), ?s1)"
    using policy by (simp add: reconcile_def Let_def)
  ultimately show ?thesis
    using stage append model by (auto simp: setup_stage_def)
qed

theorem fail_policy_witness:
  "\<not> set (alphabet (lines [[''a'', ''b'', ''c'']])) \<subseteq> set (keys codec_ab) \<and>
   fst (setup_stage None (loaded codec_ab ''fail'' [[''a'', ''b'', ''c'']] [[''a'', ''b'']])) =
     Inl (KrakenInputException (Alphabets_mismatch {''c''}))"
  using fail_policy_alphabet_mismatch [of None "loaded codec_ab ''fail'' [[''a'', ''b'', ''c'']] [[''a'', ''b'']]"
      "''model.mlmodel''" "network_of codec_ab" codec_ab]
  by (simp add: loaded_def network_of_def codec_ab_def lines_def empty_dataset_def alphabet_def keys_def)


text \<open>
  The claim as stated, that the codec is left unchanged, fails: in scenario A the codec of
  the loaded network is not strict before \<^verbatim>\<open>setup\<close> and strict when the exception
  leaves it.
\<close>

theorem fail_policy_counterexample:
  "map_option nn_codec (nn (loaded codec_ab ''fail'' [[''a'', ''b'', ''c'']] [[''a'', ''b'']])) =
     Some (Some \<lparr>c2l = [(''a'', [0]), (''b'', [1])], strict = False\<rparr>) \<and>
   fst (setup_stage None (loaded codec_ab ''fail'' [[''a'', ''b'', ''c'']] [[''a'', ''b'']])) =
     Inl (KrakenInputException (Alphabets_mismatch {''c''})) \<and>
   map_option nn_codec (nn (snd (setup_stage None (loaded codec_ab ''fail'' [[''a'', ''b'', ''c'']] [[''a'', ''b'']])))) =
     Some (Some \<lparr>c2l = [(''a'', [0]), (''b'', [1])], strict = True\<rparr>)"
  by code_simp

subsection \<open>Merging codecs, and the statements after the three branches\<close>

text \<open>
  The merged codec knows exactly the clusters of the other codec, and the labels it reports
  as deleted are those of the receiver's clusters that the other codec does not know. The
  statements of lines 477 to 493 leave the codec and the output layer of the network as
  they are, and change at most the dataset of the validation set.
\<close>

lemma ds_encode_Inr:
  "ds_encode (Some c) ds = Inr d \<Longrightarrow>
   \<exists>ls. encode_samples c (samples ds) = Inr ls \<and> d = ds\<lparr>ds_codec := Some c, training_set := ls\<rparr>"
  by (auto simp: ds_encode_def split: sum.splits)

lemma set_keys_codec_of_alphabet: "set (keys (codec_of_alphabet a)) = set a"
  by (simp add: codec_of_alphabet_def keys_def Let_def)

lemma fst_comp_value: "fst \<circ> (\<lambda>(k, v). (k, f v)) = fst"
  by (auto simp: fun_eq_iff)

lemma map_fst_filter_key: "map fst (filter (\<lambda>(k, v). P k) xs) = filter P (map fst xs)"
  by (induction xs) auto

lemma keys_merge:
  "keys (fst (merge c other)) =
     filter (\<lambda>k. k \<in> set (keys other)) (keys c) @ filter (\<lambda>k. k \<notin> set (keys c)) (keys other)"
  by (simp add: merge_def keys_def Let_def fst_comp_value map_fst_filter_key)

lemma set_keys_merge: "set (keys (fst (merge c other))) = set (keys other)"
  by (auto simp: keys_merge)

lemma deleted_merge:
  "snd (merge c other) = concat (map snd (filter (\<lambda>(k, v). k \<notin> set (keys other)) (c2l c)))"
  by (simp add: merge_def Let_def)

lemma finish_nn:
  "nn self = Some net \<Longrightarrow>
   \<exists>net'. nn (snd (finish self)) = Some net' \<and> nn_codec net' = nn_codec net \<and> out_layer net' = out_layer net"
  by (auto simp: finish_def encode_at_def Let_def split: sum.splits option.splits)

lemma finish_codec: "codec (snd (finish self)) = codec self"
  by (auto simp: finish_def encode_at_def Let_def split: sum.splits option.splits)

lemma finish_heap:
  "heap (snd (finish self)) r = heap self r \<or>
   (\<exists>net d. nn self = Some net \<and> r = dataset (val_set self) \<and>
      ds_encode (nn_codec net) (heap self r) = Inr d \<and> heap (snd (finish self)) r = d)"
  by (auto simp: finish_def encode_at_def Let_def split: sum.splits option.splits)

subsection \<open>The branch of a loaded model\<close>

lemma load_branch:
  assumes "stage = None \<or> stage = Some ''fit''"
    and "append_pt self = None \<or> append_pt self = Some 0"
    and "model self = Some path" "path \<noteq> []"
  shows "setup_stage stage self =
     (case setup_load self of (Inl e, s) \<Rightarrow> (Inl e, s) | (Inr u, s) \<Rightarrow> finish s)"
  using assms by (auto simp: setup_stage_def)

lemma alphabet_encoded [simp]: "alphabet (ds\<lparr>ds_codec := co, training_set := ls\<rparr>) = alphabet ds"
  by (simp add: alphabet_def)

lemma ds_encode_again:
  assumes "ds_encode (Some c) (ds\<lparr>ds_codec := co, training_set := ls0\<rparr>) = Inr d"
  shows "\<exists>ls. encode_samples c (samples ds) = Inr ls \<and> d = ds\<lparr>ds_codec := Some c, training_set := ls\<rparr>"
  using ds_encode_Inr [OF assms] by auto

lemma reconcile_both:
  assumes policy: "resize s = ''both''"
    and nn: "nn s = Some net1"
    and merged: "merge c' (codec_of_alphabet (alphabet (heap s (dataset (train_set s))))) =
                 (ncodec, del_labels)"
  shows "\<exists>ls. encode_samples ncodec (samples (heap s (dataset (train_set s)))) = Inr ls \<and>
           reconcile c' s =
             (Inr (), s\<lparr>heap := (heap s)(dataset (train_set s) :=
                                 (heap s (dataset (train_set s)))\<lparr>ds_codec := Some ncodec,
                                                                  training_set := ls\<rparr>),
                        nn := Some (resize_output (max_label ncodec + 1) del_labels
                                      (add_codec ncodec net1))\<rparr>)"
proof -
  let ?r = "dataset (train_set s)"
  let ?train = "heap s ?r"
  let ?other = "codec_of_alphabet (alphabet ?train)"
  obtain ls0 where
    ls0: "ds_encode None ?train = Inr (?train\<lparr>ds_codec := Some ?other, training_set := ls0\<rparr>)"
    using ds_encode_None [of ?train] by blast
  let ?first = "?train\<lparr>ds_codec := Some ?other, training_set := ls0\<rparr>"
  have "set (alphabet ?first) \<subseteq> set (keys ncodec)"
    using set_keys_merge [of c' ?other] merged by (simp add: set_keys_codec_of_alphabet)
  then obtain d where d: "ds_encode (Some ncodec) ?first = Inr d"
    using ds_encode_known [of ?first ncodec] by blast
  from ds_encode_again [OF d] obtain ls where
    ls: "encode_samples ncodec (samples ?train) = Inr ls"
        "d = ?train\<lparr>ds_codec := Some ncodec, training_set := ls\<rparr>"
    by blast
  have "reconcile c' s =
     (Inr (), s\<lparr>heap := (heap s)(?r := ?train\<lparr>ds_codec := Some ncodec, training_set := ls\<rparr>),
                nn := Some (resize_output (max_label ncodec + 1) del_labels
                              (add_codec ncodec net1))\<rparr>)"
    using policy nn merged ls0 d ls(2) by (simp add: reconcile_def Let_def encode_at_def)
  with ls(1) show ?thesis by blast
qed

lemma load_mismatch:
  assumes eff: "effective_codec self = Inr (given, Some c)"
    and nn: "nn self = Some net"
    and diff: "\<not> set (alphabet (heap self (dataset (train_set self)))) \<subseteq> set (keys c)"
  shows "\<exists>s1 net1. setup_load self = reconcile (c\<lparr>strict := True\<rparr>) s1 \<and>
           nn s1 = Some net1 \<and> out_layer net1 = out_layer net \<and> heap s1 = heap self \<and>
           train_set s1 = train_set self \<and> val_set s1 = val_set self \<and> resize s1 = resize self"
proof -
  let ?c = "c\<lparr>strict := True\<rparr>"
  let ?r = "dataset (train_set self)"
  from diff obtain g where
    g: "ds_encode (Some ?c) (heap self ?r) = Inl (KrakenEncodeException g)"
    using ds_encode_unknown [of ?c "heap self ?r"] by auto
  show ?thesis
  proof (cases given)
    case True
    have "setup_load self = reconcile ?c (self\<lparr>codec := Some ?c\<rparr>)"
      using eff g True by (simp add: setup_load_def encode_at_def Let_def)
    with nn show ?thesis by auto
  next
    case False
    have "setup_load self = reconcile ?c (self\<lparr>nn := Some (net\<lparr>nn_codec := Some ?c\<rparr>)\<rparr>)"
      using eff g False nn by (simp add: setup_load_def encode_at_def Let_def)
    then show ?thesis by auto
  qed
qed

subsection \<open>Policy \<^verbatim>\<open>both\<close>\<close>

text \<open>
  Claim C2. When a pretrained model is loaded (no append point), the policy is
  \<^verbatim>\<open>both\<close> and the alphabet of the training set has clusters that the effective codec
  \<open>c\<close> does not know, \<^verbatim>\<open>setup\<close> merges the effective codec (strict by then) with the
  codec built from the training set: with \<open>(ncodec, del_labels)\<close> the result of the merge,
  the network ends with \<open>ncodec\<close> as its codec and with the output layer that
  \<^verbatim>\<open>resize_output(ncodec.max_label + 1, del_labels)\<close> makes of the loaded one, the
  training set is encoded against \<open>ncodec\<close>, and \<open>del_labels\<close> are the labels of the
  clusters of \<open>c\<close> that do not occur in the training set. This is the state in which
  \<^verbatim>\<open>setup\<close> returns, or raises from one of its last statements (lines 477 to 493).
\<close>

theorem both_policy_merges:
  assumes stage: "stage = None \<or> stage = Some ''fit''"
    and append: "append_pt self = None \<or> append_pt self = Some 0"
    and model: "model self = Some path" "path \<noteq> []"
    and nn: "nn self = Some net"
    and policy: "resize self = ''both''"
    and eff: "effective_codec self = Inr (given, Some c)"
    and diff: "\<not> set (alphabet (heap self (dataset (train_set self)))) \<subseteq> set (keys c)"
    and merged: "merge (c\<lparr>strict := True\<rparr>)
                   (codec_of_alphabet (alphabet (heap self (dataset (train_set self))))) =
                 (ncodec, del_labels)"
  shows "\<exists>net' ls. nn (snd (setup_stage stage self)) = Some net' \<and>
           nn_codec net' = Some ncodec \<and>
           out_layer net' = out_layer (resize_output (max_label ncodec + 1) del_labels net) \<and>
           encode_samples ncodec (samples (heap self (dataset (train_set self)))) = Inr ls \<and>
           heap (snd (setup_stage stage self)) (dataset (train_set self)) =
             (heap self (dataset (train_set self)))\<lparr>ds_codec := Some ncodec, training_set := ls\<rparr> \<and>
           del_labels = concat (map snd (filter
             (\<lambda>(k, v). k \<notin> set (alphabet (heap self (dataset (train_set self))))) (c2l c)))"
proof -
  let ?c = "c\<lparr>strict := True\<rparr>"
  let ?r = "dataset (train_set self)"
  let ?train = "heap self ?r"
  let ?other = "codec_of_alphabet (alphabet ?train)"
  from load_mismatch [OF eff nn diff] obtain s1 net1 where
    load: "setup_load self = reconcile ?c s1" and
    s1: "nn s1 = Some net1" "out_layer net1 = out_layer net" "heap s1 = heap self"
        "train_set s1 = train_set self" "resize s1 = resize self"
    by blast
  have merged1: "merge ?c (codec_of_alphabet (alphabet (heap s1 (dataset (train_set s1))))) =
                 (ncodec, del_labels)"
    using merged s1 by simp
  have policy1: "resize s1 = ''both''" using policy s1 by simp
  from reconcile_both [OF policy1 s1(1) merged1] obtain ls where
    enc: "encode_samples ncodec (samples ?train) = Inr ls" and
    rec: "reconcile ?c s1 =
       (Inr (), s1\<lparr>heap := (heap self)(?r := ?train\<lparr>ds_codec := Some ncodec, training_set := ls\<rparr>),
                   nn := Some (resize_output (max_label ncodec + 1) del_labels
                                 (add_codec ncodec net1))\<rparr>)"
    using s1 by auto
  let ?d = "?train\<lparr>ds_codec := Some ncodec, training_set := ls\<rparr>"
  let ?net3 = "resize_output (max_label ncodec + 1) del_labels (add_codec ncodec net1)"
  let ?s3 = "s1\<lparr>heap := (heap self)(?r := ?d), nn := Some ?net3\<rparr>"
  have run: "setup_stage stage self = finish ?s3"
    using load_branch [OF stage append model] load rec by simp
  have nn3: "nn ?s3 = Some ?net3" by simp
  from finish_nn [OF nn3] obtain net' where
    net': "nn (snd (finish ?s3)) = Some net'" "nn_codec net' = nn_codec ?net3"
      "out_layer net' = out_layer ?net3"
    by blast
  have codec3: "nn_codec ?net3 = Some ncodec"
    by (simp add: resize_output_def add_codec_def Let_def)
  have layer3: "out_layer ?net3 = out_layer (resize_output (max_label ncodec + 1) del_labels net)"
    using s1 by (simp add: resize_output_def add_codec_def Let_def)
  have "heap (snd (finish ?s3)) ?r = ?d"
  proof -
    from finish_heap [of ?s3 ?r] show ?thesis
    proof
      assume "heap (snd (finish ?s3)) ?r = heap ?s3 ?r"
      then show ?thesis by simp
    next
      assume "\<exists>net d. nn ?s3 = Some net \<and> ?r = dataset (val_set ?s3) \<and>
        ds_encode (nn_codec net) (heap ?s3 ?r) = Inr d \<and> heap (snd (finish ?s3)) ?r = d"
      then obtain d' where d': "ds_encode (Some ncodec) ?d = Inr d'" "heap (snd (finish ?s3)) ?r = d'"
        using codec3 by auto
      from ds_encode_again [OF d'(1)] enc have "d' = ?d" by auto
      with d' show ?thesis by simp
    qed
  qed
  moreover have "del_labels = concat (map snd (filter (\<lambda>(k, v). k \<notin> set (alphabet ?train)) (c2l c)))"
    using deleted_merge [of ?c ?other] merged by (simp add: set_keys_codec_of_alphabet)
  ultimately show ?thesis
    using run net' codec3 layer3 enc by simp
qed

theorem both_policy_witness:
  "\<not> set (alphabet (lines [[''a'', ''b'', ''c'']])) \<subseteq> set (keys codec_abx) \<and>
   (\<exists>net'. nn (snd (setup_stage None (loaded codec_abx ''both'' [[''a'', ''b'', ''c'']] [[''a'', ''b'']]))) = Some net' \<and>
      nn_codec net' = Some \<lparr>c2l = [(''a'', [0]), (''b'', [1]), (''c'', [2])], strict = True\<rparr> \<and>
      out_layer net' = [Learned 0, Learned 1, Fresh]) \<and>
   heap (snd (setup_stage None (loaded codec_abx ''both'' [[''a'', ''b'', ''c'']] [[''a'', ''b'']]))) 0 =
     (lines [[''a'', ''b'', ''c'']])
       \<lparr>ds_codec := Some \<lparr>c2l = [(''a'', [0]), (''b'', [1]), (''c'', [2])], strict = True\<rparr>,
        training_set := [(''line.png'', [0, 1, 2])]\<rparr>"
proof -
  let ?self = "loaded codec_abx ''both'' [[''a'', ''b'', ''c'']] [[''a'', ''b'']]"
  let ?ncodec = "\<lparr>c2l = [(''a'', [0]), (''b'', [1]), (''c'', [2])], strict = True\<rparr>"
  have train: "heap ?self (dataset (train_set ?self)) = lines [[''a'', ''b'', ''c'']]"
    by (simp add: loaded_def)
  have diff: "\<not> set (alphabet (lines [[''a'', ''b'', ''c'']])) \<subseteq> set (keys codec_abx)"
    by code_simp
  have eff: "effective_codec ?self = Inr (False, Some codec_abx)"
    by (simp add: effective_codec_def loaded_def network_of_def)
  have merged: "merge (codec_abx\<lparr>strict := True\<rparr>)
      (codec_of_alphabet (alphabet (lines [[''a'', ''b'', ''c'']]))) = (?ncodec, [2])"
    by code_simp
  have layer: "out_layer (resize_output (max_label ?ncodec + 1) [2] (network_of codec_abx)) =
      [Learned 0, Learned 1, Fresh]"
    by code_simp
  have enc: "encode_samples ?ncodec (samples (lines [[''a'', ''b'', ''c'']])) = Inr [(''line.png'', [0, 1, 2])]"
    by code_simp
  from both_policy_merges [of None ?self "''model.mlmodel''" "network_of codec_abx" False codec_abx ?ncodec "[2]"]
    train diff eff merged layer enc
  show ?thesis
    by (auto simp: loaded_def)
qed

subsection \<open>A training alphabet that the codec already covers\<close>

text \<open>
  Claim C8, as amended. When a pretrained model is loaded (no append point) and the
  effective codec knows every cluster of the training set, reconciliation changes nothing
  in the vocabulary, under every policy and so under \<^verbatim>\<open>add\<close> and \<^verbatim>\<open>both\<close>: the
  strict encoding of line 445 succeeds, the handler is not entered, and \<^verbatim>\<open>setup\<close> ends
  with the output layer of the network as loaded (no row deleted, none added) and with the
  mappings \<open>c2l\<close> of the network's codec and of the codec given explicitly unchanged. The
  codec is not left as it was in one respect: line 442 has set the strict flag of the
  effective codec, which is the codec of the network unless the codec given explicitly is
  the effective one (\<open>given\<close>).
\<close>

theorem compatible_alphabet_keeps_mapping:
  assumes stage: "stage = None \<or> stage = Some ''fit''"
    and append: "append_pt self = None \<or> append_pt self = Some 0"
    and model: "model self = Some path" "path \<noteq> []"
    and nn: "nn self = Some net" "nn_codec net = Some nc"
    and eff: "effective_codec self = Inr (given, Some c)"
    and sub: "set (alphabet (heap self (dataset (train_set self)))) \<subseteq> set (keys c)"
  shows "\<exists>net' nc'. nn (snd (setup_stage stage self)) = Some net' \<and>
           out_layer net' = out_layer net \<and> nn_codec net' = Some nc' \<and> c2l nc' = c2l nc \<and>
           nc' = (if given then nc else nc\<lparr>strict := True\<rparr>) \<and>
           map_option c2l (codec (snd (setup_stage stage self))) = map_option c2l (codec self) \<and>
           codec (snd (setup_stage stage self)) =
             (if given then Some (c\<lparr>strict := True\<rparr>) else codec self)"
proof -
  let ?c = "c\<lparr>strict := True\<rparr>"
  let ?r = "dataset (train_set self)"
  let ?s1 = "if given then self\<lparr>codec := Some ?c\<rparr>
             else self\<lparr>nn := map_option (\<lambda>net. net\<lparr>nn_codec := Some ?c\<rparr>) (nn self)\<rparr>"
  from sub obtain ls where
    ls: "ds_encode (Some ?c) (heap self ?r) = Inr ((heap self ?r)\<lparr>ds_codec := Some ?c, training_set := ls\<rparr>)"
    using ds_encode_known [of "heap self ?r" ?c] by auto
  let ?s2 = "?s1\<lparr>heap := (heap self)(?r := (heap self ?r)\<lparr>ds_codec := Some ?c, training_set := ls\<rparr>)\<rparr>"
  have load: "setup_load self = (Inr (), ?s2)"
    using eff ls by (simp add: setup_load_def encode_at_def Let_def)
  have given: "given \<Longrightarrow> codec self = Some c"
    using eff nn by (auto simp: effective_codec_def split: if_splits)
  have own: "\<not> given \<Longrightarrow> nc = c"
    using eff nn by (auto simp: effective_codec_def split: if_splits)
  obtain net2 where net2: "nn ?s2 = Some net2" "out_layer net2 = out_layer net"
      "nn_codec net2 = Some (if given then nc else nc\<lparr>strict := True\<rparr>)"
    using nn own by (cases given) auto
  from finish_nn [OF net2(1)] obtain net' where
    net': "nn (snd (finish ?s2)) = Some net'" "nn_codec net' = nn_codec net2" "out_layer net' = out_layer net2"
    by blast
  have "codec ?s2 = (if given then Some ?c else codec self)"
    by simp
  then have exact: "codec (snd (finish ?s2)) = (if given then Some ?c else codec self)"
    by (simp only: finish_codec)
  then have "map_option c2l (codec (snd (finish ?s2))) = map_option c2l (codec self)"
    using given by (cases given) auto
  moreover have "setup_stage stage self = finish ?s2"
    using load_branch [OF stage append model] load by simp
  ultimately show ?thesis
    using net' net2 exact by auto
qed

theorem compatible_alphabet_witness:
  "set (alphabet (lines [[''a'', ''b'']])) \<subseteq> set (keys codec_ab) \<and>
   (\<exists>net'. nn (snd (setup_stage None (loaded codec_ab ''add'' [[''a'', ''b'']] [[''a'', ''b'']]))) = Some net' \<and>
      out_layer net' = [Learned 0, Learned 1] \<and>
      nn_codec net' = Some \<lparr>c2l = [(''a'', [0]), (''b'', [1])], strict = True\<rparr>)"
proof -
  let ?self = "loaded codec_ab ''add'' [[''a'', ''b'']] [[''a'', ''b'']]"
  have train: "heap ?self (dataset (train_set ?self)) = lines [[''a'', ''b'']]"
    by (simp add: loaded_def)
  have sub: "set (alphabet (lines [[''a'', ''b'']])) \<subseteq> set (keys codec_ab)"
    by code_simp
  have eff: "effective_codec ?self = Inr (False, Some codec_ab)"
    by (simp add: effective_codec_def loaded_def network_of_def)
  have layer: "out_layer (network_of codec_ab) = [Learned 0, Learned 1]"
    by code_simp
  have strict: "codec_ab\<lparr>strict := True\<rparr> = \<lparr>c2l = [(''a'', [0]), (''b'', [1])], strict = True\<rparr>"
    by (simp add: codec_ab_def)
  from compatible_alphabet_keeps_mapping [of None ?self "''model.mlmodel''" "network_of codec_ab" codec_ab False codec_ab]
    train sub eff layer strict
  show ?thesis
    by (auto simp: loaded_def network_of_def)
qed

text \<open>
  The claim as stated, that the codec is unchanged, fails: the codec of the loaded network
  is not strict before \<^verbatim>\<open>setup\<close> and strict after it.
\<close>

theorem compatible_alphabet_counterexample:
  "map_option nn_codec (nn (loaded codec_ab ''add'' [[''a'', ''b'']] [[''a'', ''b'']])) =
     Some (Some \<lparr>c2l = [(''a'', [0]), (''b'', [1])], strict = False\<rparr>) \<and>
   fst (setup_stage None (loaded codec_ab ''add'' [[''a'', ''b'']] [[''a'', ''b'']])) = Inr () \<and>
   map_option nn_codec (nn (snd (setup_stage None (loaded codec_ab ''add'' [[''a'', ''b'']] [[''a'', ''b'']])))) =
     Some (Some \<lparr>c2l = [(''a'', [0]), (''b'', [1])], strict = True\<rparr>)"
  by code_simp

subsection \<open>Which codec is reconciled\<close>





subsection \<open>Policy \<^verbatim>\<open>add\<close>\<close>

text \<open>
  Claim C1. When a pretrained model is loaded (no append point), the policy is
  \<^verbatim>\<open>add\<close> and the alphabet of the training set has clusters that the codec of the
  network does not know, \<^verbatim>\<open>setup\<close> extends the codec by \<^verbatim>\<open>add_labels\<close> with exactly
  the missing clusters, attaches it and resizes the output layer to \<open>max_label + 1\<close> rows.
  The claim goes on: the training set is then encoded against the resized codec. The code
  does not get there: line 456 raises \<^verbatim>\<open>NameError\<close>, and \<^verbatim>\<open>setup\<close> ends with the
  store of datasets as it was, the training set not encoded.
\<close>

theorem add_policy_raises_NameError:
  assumes stage: "stage = None \<or> stage = Some ''fit''"
    and append: "append_pt self = None \<or> append_pt self = Some 0"
    and model: "model self = Some path" "path \<noteq> []"
    and nn: "nn self = Some net" "nn_codec net = Some c"
    and policy: "resize self = ''add''"
    and diff: "\<not> set (alphabet (heap self (dataset (train_set self)))) \<subseteq> set (keys c)"
  shows "setup_stage stage self =
     (Inl (NameError ''nn''),
      self\<lparr>nn := Some (resize_output
               (max_label (add_labels (c\<lparr>strict := True\<rparr>)
                  (set (alphabet (heap self (dataset (train_set self)))) - set (keys c))) + 1) []
               (add_codec (add_labels (c\<lparr>strict := True\<rparr>)
                  (set (alphabet (heap self (dataset (train_set self)))) - set (keys c)))
                  (net\<lparr>nn_codec := Some (c\<lparr>strict := True\<rparr>)\<rparr>)))\<rparr>)"
proof -
  let ?c = "c\<lparr>strict := True\<rparr>"
  let ?s1 = "self\<lparr>nn := Some (net\<lparr>nn_codec := Some ?c\<rparr>)\<rparr>"
  from diff obtain g where
    g: "ds_encode (Some ?c) (heap self (dataset (train_set self))) = Inl (KrakenEncodeException g)"
    using ds_encode_unknown [of ?c "heap self (dataset (train_set self))"] by auto
  have eff: "effective_codec self = Inr (False, Some c)"
    using nn policy by (simp add: effective_codec_def)
  have "setup_load self = reconcile ?c ?s1"
    using eff nn g by (simp add: setup_load_def encode_at_def Let_def)
  moreover have "reconcile ?c ?s1 =
     (Inl (NameError ''nn''),
      self\<lparr>nn := Some (resize_output
               (max_label (add_labels ?c
                  (set (alphabet (heap self (dataset (train_set self)))) - set (keys c))) + 1) []
               (add_codec (add_labels ?c
                  (set (alphabet (heap self (dataset (train_set self)))) - set (keys c)))
                  (net\<lparr>nn_codec := Some ?c\<rparr>)))\<rparr>)"
    using policy by (simp add: reconcile_def Let_def)
  ultimately show ?thesis
    using load_branch [OF stage append model] by simp
qed

text \<open>
  Scenario B of the specification: the training set of the loaded model stays without a
  codec.
\<close>

theorem add_policy_scenario_B:
  "\<not> set (alphabet (lines [[''a'', ''b'', ''c'']])) \<subseteq> set (keys codec_ab) \<and>
   fst (setup_stage None (loaded codec_ab ''add'' [[''a'', ''b'', ''c'']] [[''a'', ''b'']])) =
     Inl (NameError ''nn'') \<and>
   heap (snd (setup_stage None (loaded codec_ab ''add'' [[''a'', ''b'', ''c'']] [[''a'', ''b'']]))) 0 =
     lines [[''a'', ''b'', ''c'']] \<and>
   ds_codec (lines [[''a'', ''b'', ''c'']]) = None"
proof -
  let ?self = "loaded codec_ab ''add'' [[''a'', ''b'', ''c'']] [[''a'', ''b'']]"
  have diff: "\<not> set (alphabet (lines [[''a'', ''b'', ''c'']])) \<subseteq> set (keys codec_ab)"
    by code_simp
  have none: "ds_codec (lines [[''a'', ''b'', ''c'']]) = None"
    by (simp add: lines_def empty_dataset_def)
  from add_policy_raises_NameError [of None ?self "''model.mlmodel''" "network_of codec_ab" codec_ab]
    diff none
  show ?thesis by (simp add: loaded_def network_of_def)
qed

subsection \<open>Appending to a loaded model\<close>

text \<open>
  Claim C6. With an append point, the claim has \<^verbatim>\<open>setup\<close> splice a new stage onto the
  loaded network, sized to the codec of the training set. The code encodes the training
  set (line 431) and then always raises: \<^verbatim>\<open>UnboundLocalError\<close> at line 433, or the
  exception of the encoding when a strict codec given explicitly fails. The network is
  left as loaded; nothing is appended.
\<close>

theorem append_raises:
  assumes stage: "stage = None \<or> stage = Some ''fit''"
    and append: "append_pt self = Some n" "n \<noteq> 0"
  shows "nn (snd (setup_stage stage self)) = nn self \<and>
         fst (setup_stage stage self) =
           (case ds_encode (codec self) (heap self (dataset (train_set self))) of
              Inl e \<Rightarrow> Inl e
            | Inr d \<Rightarrow> Inl (UnboundLocalError ''spec''))"
proof -
  have run: "setup_stage stage self =
     (case setup_append self of (Inl e, s) \<Rightarrow> (Inl e, s) | (Inr u, s) \<Rightarrow> finish s)"
    using stage append by (auto simp: setup_stage_def)
  show ?thesis
    unfolding run
    by (cases "ds_encode (codec self) (heap self (dataset (train_set self)))")
       (simp_all add: setup_append_def encode_at_def)
qed

theorem append_raises_witness:
  "nn (snd (setup_stage None ((loaded codec_ab ''fail'' [[''a'', ''b'', ''c'']] [[''a'', ''b'']])\<lparr>append_pt := Some 1\<rparr>))) =
     Some (network_of codec_ab) \<and>
   fst (setup_stage None ((loaded codec_ab ''fail'' [[''a'', ''b'', ''c'']] [[''a'', ''b'']])\<lparr>append_pt := Some 1\<rparr>)) =
     Inl (UnboundLocalError ''spec'')"
proof -
  let ?self = "(loaded codec_ab ''fail'' [[''a'', ''b'', ''c'']] [[''a'', ''b'']])\<lparr>append_pt := Some 1\<rparr>"
  have train: "heap ?self (dataset (train_set ?self)) = lines [[''a'', ''b'', ''c'']]"
    by (simp add: loaded_def)
  have enc: "(case ds_encode None (lines [[''a'', ''b'', ''c'']]) of
                Inl e \<Rightarrow> Inl e | Inr d \<Rightarrow> Inl (UnboundLocalError ''spec'')) =
             (Inl (UnboundLocalError ''spec'') :: exn + unit)"
    by code_simp
  from append_raises [of None ?self 1] train enc show ?thesis
    by (simp add: loaded_def)
qed

subsection \<open>Encoding the validation set\<close>

text \<open>
  Claim C4. The claim has the validation set encoded with the strict flag relaxed, so that
  clusters that occur in the validation set only are reported and not fatal. In the
  branch of a loaded model line 442 sets the strict flag on the codec of the network and
  nothing resets it: when the training set is covered by that codec and the validation
  set, a dataset of its own, has a cluster the codec does not know, line 477 raises
  \<^verbatim>\<open>KrakenEncodeException\<close>.
\<close>

theorem validation_is_strict:
  assumes stage: "stage = None \<or> stage = Some ''fit''"
    and append: "append_pt self = None \<or> append_pt self = Some 0"
    and model: "model self = Some path" "path \<noteq> []"
    and nn: "nn self = Some net" "nn_codec net = Some c"
    and own: "resize self \<noteq> ''both'' \<or> codec self = None"
    and train: "set (alphabet (heap self (dataset (train_set self)))) \<subseteq> set (keys c)"
    and separate: "dataset (val_set self) \<noteq> dataset (train_set self)"
    and val: "\<not> set (alphabet (heap self (dataset (val_set self)))) \<subseteq> set (keys c)"
  shows "\<exists>g. fst (setup_stage stage self) = Inl (KrakenEncodeException g)"
proof -
  let ?c = "c\<lparr>strict := True\<rparr>"
  let ?r = "dataset (train_set self)"
  let ?v = "dataset (val_set self)"
  have eff: "effective_codec self = Inr (False, Some c)"
    using nn own by (auto simp: effective_codec_def)
  from train obtain ls where
    ls: "ds_encode (Some ?c) (heap self ?r) = Inr ((heap self ?r)\<lparr>ds_codec := Some ?c, training_set := ls\<rparr>)"
    using ds_encode_known [of "heap self ?r" ?c] by auto
  let ?s2 = "self\<lparr>nn := Some (net\<lparr>nn_codec := Some ?c\<rparr>),
                  heap := (heap self)(?r := (heap self ?r)\<lparr>ds_codec := Some ?c, training_set := ls\<rparr>)\<rparr>"
  have load: "setup_load self = (Inr (), ?s2)"
    using eff ls nn by (simp add: setup_load_def encode_at_def Let_def)
  from val obtain g where
    g: "ds_encode (Some ?c) (heap self ?v) = Inl (KrakenEncodeException g)"
    using ds_encode_unknown [of ?c "heap self ?v"] by auto
  have "fst (finish ?s2) = Inl (KrakenEncodeException g)"
    using g separate by (simp add: finish_def encode_at_def)
  then show ?thesis
    using load_branch [OF stage append model] load by auto
qed

theorem validation_is_strict_witness:
  "set (alphabet (lines [[''a'', ''b'']])) \<subseteq> set (keys codec_ab) \<and>
   \<not> set (alphabet (lines [[''a'', ''b'', ''c'']])) \<subseteq> set (keys codec_ab) \<and>
   fst (setup_stage None (loaded codec_ab ''fail'' [[''a'', ''b'']] [[''a'', ''b'', ''c'']])) =
     Inl (KrakenEncodeException ''c'')"
proof -
  let ?self = "loaded codec_ab ''fail'' [[''a'', ''b'']] [[''a'', ''b'', ''c'']]"
  have train: "set (alphabet (lines [[''a'', ''b'']])) \<subseteq> set (keys codec_ab)"
    by code_simp
  have val: "\<not> set (alphabet (lines [[''a'', ''b'', ''c'']])) \<subseteq> set (keys codec_ab)"
    by code_simp
  have run: "fst (setup_stage None ?self) = Inl (KrakenEncodeException ''c'')"
    by code_simp
  from validation_is_strict [of None ?self "''model.mlmodel''" "network_of codec_ab" codec_ab]
    train val run
  show ?thesis by (simp add: loaded_def)
qed

subsection \<open>An invalid policy\<close>

lemma encode_samples_Inl:
  "encode_samples c ss = Inl e \<Longrightarrow> \<exists>g. e = KrakenEncodeException g"
proof (induction ss)
  case Nil
  then show ?case by simp
next
  case (Cons s ss)
  then show ?case
    using encode_Inl [of c "s_text s" e] by (auto split: sum.splits)
qed

lemma ds_encode_Inl: "ds_encode co ds = Inl e \<Longrightarrow> \<exists>g. e = KrakenEncodeException g"
  using encode_samples_Inl by (auto simp: ds_encode_def Let_def split: sum.splits)

lemma encode_at_Inl: "encode_at r co s = Inl e \<Longrightarrow> \<exists>g. e = KrakenEncodeException g"
  using ds_encode_Inl by (auto simp: encode_at_def split: sum.splits)

lemma finish_no_ValueError: "fst (finish s) \<noteq> Inl (ValueError m)"
  using encode_at_Inl [of "dataset (val_set s)" _ s "ValueError m"]
  by (auto simp: finish_def Let_def split: option.splits sum.splits)

lemma setup_append_no_ValueError: "fst (setup_append s) \<noteq> Inl (ValueError m)"
  using encode_at_Inl [of _ _ s "ValueError m"]
  by (auto simp: setup_append_def split: sum.splits)

lemma setup_new_no_ValueError: "fst (setup_new s) \<noteq> Inl (ValueError m)"
  using encode_at_Inl [of _ _ s "ValueError m"]
  by (auto simp: setup_new_def Let_def split: sum.splits option.splits)

lemma setup_new_finish_no_ValueError:
  "fst (case setup_new s of (Inl e, s') \<Rightarrow> (Inl e, s') | (Inr u, s') \<Rightarrow> finish s') \<noteq> Inl (ValueError m)"
  using setup_new_no_ValueError [of s m] finish_no_ValueError
  by (cases "setup_new s") (auto split: sum.splits)

lemma setup_load_invalid_policy:
  assumes policy: "resize self \<noteq> ''fail''" "resize self \<noteq> ''add''" "resize self \<noteq> ''both''"
  shows "(\<exists>m. fst (case setup_load self of (Inl e, s) \<Rightarrow> (Inl e, s) | (Inr u, s) \<Rightarrow> finish s) = Inl (ValueError m)) \<longleftrightarrow>
         (\<exists>net c. nn self = Some net \<and> nn_codec net = Some c \<and>
            \<not> set (alphabet (heap self (dataset (train_set self)))) \<subseteq> set (keys c))"
proof (cases "nn self")
  case None
  then show ?thesis using policy by (simp add: setup_load_def effective_codec_def)
next
  case (Some net)
  show ?thesis
  proof (cases "nn_codec net")
    case None
    with Some show ?thesis using policy by (simp add: setup_load_def effective_codec_def)
  next
    case c: (Some c)
    let ?c = "c\<lparr>strict := True\<rparr>"
    let ?r = "dataset (train_set self)"
    let ?s1 = "self\<lparr>nn := Some (net\<lparr>nn_codec := Some ?c\<rparr>)\<rparr>"
    have eff: "effective_codec self = Inr (False, Some c)"
      using Some c policy by (simp add: effective_codec_def)
    show ?thesis
    proof (cases "set (alphabet (heap self ?r)) \<subseteq> set (keys c)")
      case True
      then obtain ls where
        "ds_encode (Some ?c) (heap self ?r) = Inr ((heap self ?r)\<lparr>ds_codec := Some ?c, training_set := ls\<rparr>)"
        using ds_encode_known [of "heap self ?r" ?c] by auto
      then have "\<exists>s2. setup_load self = (Inr (), s2)"
        using eff Some by (simp add: setup_load_def encode_at_def Let_def)
      then show ?thesis
        using True Some c finish_no_ValueError by auto
    next
      case False
      then obtain g where "ds_encode (Some ?c) (heap self ?r) = Inl (KrakenEncodeException g)"
        using ds_encode_unknown [of ?c "heap self ?r"] by auto
      then have "setup_load self = reconcile ?c ?s1"
        using eff Some by (simp add: setup_load_def encode_at_def Let_def)
      moreover have "fst (reconcile ?c ?s1) =
          Inl (ValueError (''invalid resize parameter value '' @ resize self))"
        using policy by (simp add: reconcile_def Let_def)
      ultimately show ?thesis
        using False Some c by (cases "reconcile ?c ?s1") auto
    qed
  qed
qed

text \<open>
  Claim C7, as amended. A policy other than \<^verbatim>\<open>fail\<close>, \<^verbatim>\<open>add\<close> and \<^verbatim>\<open>both\<close> makes
  \<^verbatim>\<open>setup\<close> raise \<^verbatim>\<open>ValueError\<close> exactly when a pretrained model is loaded with no
  append point and the training set has a cluster that the codec of the network does not
  know, that is when the handler of line 446 is entered; in every other state the value of
  the policy is not looked at. The datasets that \<^verbatim>\<open>setup\<close> works on have been built
  before it is called.
\<close>

theorem invalid_policy_ValueError:
  assumes policy: "resize self \<noteq> ''fail''" "resize self \<noteq> ''add''" "resize self \<noteq> ''both''"
  shows "(\<exists>m. fst (setup_stage stage self) = Inl (ValueError m)) \<longleftrightarrow>
         (stage = None \<or> stage = Some ''fit'') \<and>
         (append_pt self = None \<or> append_pt self = Some 0) \<and>
         (\<exists>path. model self = Some path \<and> path \<noteq> []) \<and>
         (\<exists>net c. nn self = Some net \<and> nn_codec net = Some c \<and>
            \<not> set (alphabet (heap self (dataset (train_set self)))) \<subseteq> set (keys c))"
proof (cases "stage = None \<or> stage = Some ''fit''")
  case False
  then have "setup_stage stage self = (Inr (), self)"
    by (auto simp: setup_stage_def)
  with False show ?thesis by simp
next
  case stage: True
  show ?thesis
  proof (cases "append_pt self = None \<or> append_pt self = Some 0")
    case False
    then have "setup_stage stage self =
       (case setup_append self of (Inl e, s) \<Rightarrow> (Inl e, s) | (Inr u, s) \<Rightarrow> finish s)"
      using stage by (auto simp: setup_stage_def split: option.splits)
    moreover have "\<exists>e s. setup_append self = (Inl e, s)"
      by (auto simp: setup_append_def split: sum.splits)
    ultimately show ?thesis
      using False setup_append_no_ValueError [of self] by auto
  next
    case append: True
    show ?thesis
    proof (cases "\<exists>path. model self = Some path \<and> path \<noteq> []")
      case False
      then have "setup_stage stage self =
         (case setup_new self of (Inl e, s) \<Rightarrow> (Inl e, s) | (Inr u, s) \<Rightarrow> finish s)"
        using stage append by (auto simp: setup_stage_def split: option.splits)
      then show ?thesis
        using False setup_new_finish_no_ValueError [of self] by auto
    next
      case True
      then obtain path where "model self = Some path" "path \<noteq> []" by blast
      from load_branch [OF stage append this] setup_load_invalid_policy [OF policy]
      show ?thesis using stage append True by simp
    qed
  qed
qed

text \<open>
  The claim as stated fails: with a training set that the codec covers, an invalid policy
  raises nothing.
\<close>

theorem invalid_policy_counterexample:
  "resize (loaded codec_ab ''bogus'' [[''a'', ''b'']] [[''a'', ''b'']]) \<notin> {''fail'', ''add'', ''both''} \<and>
   fst (setup_stage None (loaded codec_ab ''bogus'' [[''a'', ''b'']] [[''a'', ''b'']])) = Inr ()"
  by code_simp

theorem invalid_policy_witness:
  "\<not> set (alphabet (lines [[''a'', ''b'', ''c'']])) \<subseteq> set (keys codec_ab) \<and>
   (\<exists>m. fst (setup_stage None (loaded codec_ab ''bogus'' [[''a'', ''b'', ''c'']] [[''a'', ''b'']])) =
      Inl (ValueError m))"
proof -
  let ?self = "loaded codec_ab ''bogus'' [[''a'', ''b'', ''c'']] [[''a'', ''b'']]"
  have diff: "\<not> set (alphabet (lines [[''a'', ''b'', ''c'']])) \<subseteq> set (keys codec_ab)"
    by code_simp
  have "nn ?self = Some (network_of codec_ab) \<and> nn_codec (network_of codec_ab) = Some codec_ab \<and>
        \<not> set (alphabet (heap ?self (dataset (train_set ?self)))) \<subseteq> set (keys codec_ab)"
    using diff by (simp add: loaded_def network_of_def)
  then have "\<exists>net c. nn ?self = Some net \<and> nn_codec net = Some c \<and>
        \<not> set (alphabet (heap ?self (dataset (train_set ?self)))) \<subseteq> set (keys c)"
    by blast
  with invalid_policy_ValueError [of ?self None] diff
  show ?thesis by (simp add: loaded_def)
qed

subsection \<open>Building a dataset\<close>

lemma add_each_samples:
  "add_each parse ims ds = (Inr ds', w) \<Longrightarrow>
   samples ds' = samples ds @ concat (map (\<lambda>im. case parse im of Inl e \<Rightarrow> [] | Inr s \<Rightarrow> [s]) ims)"
proof (induction ims arbitrary: ds w)
  case Nil
  then show ?case by simp
next
  case (Cons im ims)
  show ?case
  proof (cases "parse im")
    case (Inr s)
    with Cons.prems have "add_each parse ims (ds\<lparr>samples := samples ds @ [s]\<rparr>) = (Inr ds', w)"
      by (simp add: add_def)
    from Cons.IH [OF this] Inr show ?thesis by simp
  next
    case (Inl e)
    with Cons.prems obtain w' where "add_each parse ims ds = (Inr ds', w')"
      by (cases e; cases "add_each parse ims ds") (auto simp: add_def)
    from Cons.IH [OF this] Inl show ?thesis by simp
  qed
qed

text \<open>
  Claim C10. \<^verbatim>\<open>_build_dataset\<close> creates the worker pool exactly when
  \<^verbatim>\<open>num_workers\<close> is greater than 1 and the format is not \<^verbatim>\<open>binary\<close>. For the format
  \<^verbatim>\<open>binary\<close> the result depends neither on the number of workers nor on the order in
  which a pool would complete, and the samples of the dataset returned are those of the
  items that parse, in the order in which the items were given.
\<close>

theorem binary_is_sequential:
  "(pool (build_dataset num_workers format_type completion parse ds training_data) \<noteq> None \<longleftrightarrow>
      1 < num_workers \<and> format_type \<noteq> Some ''binary'') \<and>
   build_dataset num_workers (Some ''binary'') completion parse ds training_data =
     build_dataset 1 (Some ''binary'') id parse ds training_data \<and>
   (\<forall>ds'. built (build_dataset num_workers (Some ''binary'') completion parse ds training_data) = Inr ds' \<longrightarrow>
      samples ds' = samples ds @
        concat (map (\<lambda>im. case parse im of Inl e \<Rightarrow> [] | Inr s \<Rightarrow> [s]) training_data))"
proof -
  have "samples ds' = samples ds @
        concat (map (\<lambda>im. case parse im of Inl e \<Rightarrow> [] | Inr s \<Rightarrow> [s]) training_data)"
    if "built (build_dataset num_workers (Some ''binary'') completion parse ds training_data) = Inr ds'"
    for ds'
  proof -
    obtain r w where rw: "add_each parse training_data ds = (r, w)"
      by (cases "add_each parse training_data ds")
    with that have "r = Inr ds'" by (simp add: build_dataset_def)
    with rw show ?thesis using add_each_samples by blast
  qed
  moreover have "pool (build_dataset num_workers format_type completion parse ds training_data) \<noteq> None \<longleftrightarrow>
      1 < num_workers \<and> format_type \<noteq> Some ''binary''"
    by (auto simp: build_dataset_def split: prod.splits)
  moreover have "build_dataset num_workers (Some ''binary'') completion parse ds training_data =
     build_dataset 1 (Some ''binary'') id parse ds training_data"
    by (simp add: build_dataset_def)
  ultimately show ?thesis by blast
qed

theorem binary_is_sequential_witness:
  "built (build_dataset 4 (Some ''binary'') rev parse_line empty_dataset [''1.png'', ''empty.png'', ''2.png'']) =
     Inr (empty_dataset\<lparr>samples := [\<lparr>s_image = ''1.png'', s_text = [''a'', ''b'']\<rparr>,
                                     \<lparr>s_image = ''2.png'', s_text = [''a'', ''b'']\<rparr>]\<rparr>) \<and>
   samples (empty_dataset\<lparr>samples := [\<lparr>s_image = ''1.png'', s_text = [''a'', ''b'']\<rparr>,
                                     \<lparr>s_image = ''2.png'', s_text = [''a'', ''b'']\<rparr>]\<rparr>) =
     samples empty_dataset @
       concat (map (\<lambda>im. case parse_line im of Inl e \<Rightarrow> [] | Inr s \<Rightarrow> [s]) [''1.png'', ''empty.png'', ''2.png''])"
proof -
  have b: "built (build_dataset 4 (Some ''binary'') rev parse_line empty_dataset [''1.png'', ''empty.png'', ''2.png'']) =
     Inr (empty_dataset\<lparr>samples := [\<lparr>s_image = ''1.png'', s_text = [''a'', ''b'']\<rparr>,
                                     \<lparr>s_image = ''2.png'', s_text = [''a'', ''b'']\<rparr>]\<rparr>)"
    by code_simp
  from binary_is_sequential [of 4 "Some ''binary''" rev parse_line empty_dataset "[''1.png'', ''empty.png'', ''2.png'']"] b
  show ?thesis by blast
qed

text \<open>
  Claim C9. The claim has an item that fails to parse, a missing file included, logged and
  dropped on both paths. On the sequential path (lines 366 to 370) only
  \<^verbatim>\<open>KrakenInputException\<close> is caught: with one worker the \<^verbatim>\<open>FileNotFoundError\<close> of
  the second item leaves \<^verbatim>\<open>_build_dataset\<close>, while with two workers \<^verbatim>\<open>_star_fun\<close>
  catches it, logs it, and the two other items are added.
\<close>

theorem sequential_path_aborts_on_missing_file:
  "built (build_dataset 1 (Some ''path'') id parse_line empty_dataset
            [''1.png'', ''missing.png'', ''2.png'']) =
     Inl (FileNotFoundError ''No such file or directory'' ''missing.gt.txt'') \<and>
   built (build_dataset 2 (Some ''path'') id parse_line empty_dataset
            [''1.png'', ''missing.png'', ''2.png'']) =
     Inr (empty_dataset\<lparr>samples := [\<lparr>s_image = ''1.png'', s_text = [''a'', ''b'']\<rparr>,
                                     \<lparr>s_image = ''2.png'', s_text = [''a'', ''b'']\<rparr>]\<rparr>) \<and>
   warnings (build_dataset 2 (Some ''path'') id parse_line empty_dataset
            [''1.png'', ''missing.png'', ''2.png'']) =
     [Message ''No such file or directory: missing.gt.txt. Skipping.'']"
  by code_simp

end
